theory Spec2Isabelle
  imports Complex_Main
begin

section \<open>The dual-layout animation engine\<close>

text \<open>
  The development embeds the animated pools of the scene: the particle field
  (\<^verbatim>\<open>Foliage\<close>, with its vertex shader) and the three instanced ornament pools and
  the apex star (\<^verbatim>\<open>Ornaments\<close>).

  Numbers are IEEE doubles on the host and 32-bit floats in the shader; both are
  idealised as \<^typ>\<open>real\<close>, so every statement below is about the formulas the
  code evaluates, not about rounding. \<^verbatim>\<open>Math.random()\<close> is an explicit stream of
  draws, \<^typ>\<open>nat \<Rightarrow> real\<close>, read at successive positions.
\<close>

subsection \<open>Configuration (constants.ts, types.ts)\<close>

definition HEIGHT :: real where
  "HEIGHT = 9"

definition RADIUS_BASE :: real where
  "RADIUS_BASE = 3.5"

definition PARTICLE_COUNT :: nat where
  "PARTICLE_COUNT = 15000"

definition ORNAMENT_COUNT :: nat where
  "ORNAMENT_COUNT = 450"

definition SCATTER_RADIUS :: real where
  "SCATTER_RADIUS = 15"

definition TRANSITION_SPEED :: real where
  "TRANSITION_SPEED = 2.0"

datatype TreeState = SCATTERED | TREE_SHAPE

type_synonym vec3 = "real \<times> real \<times> real"

datatype ornament_type = box | sphere | star

record PositionData =
  treePosition :: vec3
  scatterPosition :: vec3
  rotation :: vec3
  scale :: real
  type :: ornament_type

subsection \<open>Library functions the code calls\<close>

text \<open>\<^verbatim>\<open>THREE.MathUtils.lerp(x, y, t)\<close> is \<^verbatim>\<open>(1 - t) * x + t * y\<close>.\<close>

definition lerp :: "real \<Rightarrow> real \<Rightarrow> real \<Rightarrow> real" where
  "lerp x y t = (1 - t) * x + t * y"

text \<open>GLSL \<^verbatim>\<open>mix(x, y, a)\<close> is \<^verbatim>\<open>x * (1 - a) + y * a\<close>, componentwise on a vector.\<close>

definition mix :: "real \<Rightarrow> real \<Rightarrow> real \<Rightarrow> real" where
  "mix x y a = x * (1 - a) + y * a"

definition mix3 :: "vec3 \<Rightarrow> vec3 \<Rightarrow> real \<Rightarrow> vec3" where
  "mix3 p q a =
     (case p of (px, py, pz) \<Rightarrow> case q of (qx, qy, qz) \<Rightarrow>
        (mix px qx a, mix py qy a, mix pz qz a))"

text \<open>GLSL \<^verbatim>\<open>clamp(x, minVal, maxVal)\<close> is \<^verbatim>\<open>min(max(x, minVal), maxVal)\<close>.\<close>

definition clamp :: "real \<Rightarrow> real \<Rightarrow> real \<Rightarrow> real" where
  "clamp x minVal maxVal = min (max x minVal) maxVal"

text \<open>
  GLSL \<^verbatim>\<open>pow(x, y)\<close> is evaluated through logarithms; its result is undefined for
  \<open>x < 0\<close>, and for \<open>x = 0\<close> with \<open>y \<le> 0\<close>. The undefined cases are \<open>None\<close>.
  JavaScript's \<^verbatim>\<open>Math.pow(x, 3)\<close> is the plain cube, defined for every \<open>x\<close>.
\<close>

definition pow :: "real \<Rightarrow> real \<Rightarrow> real option" where
  "pow x y = (if x < 0 \<or> (x = 0 \<and> y \<le> 0) then None else Some (x powr y))"

subsection \<open>Easing\<close>

text \<open>The easing expression of \<^verbatim>\<open>animateMesh\<close> (Ornaments, line 116), evaluated on the host.\<close>

definition animateMesh_eased :: "real \<Rightarrow> real" where
  "animateMesh_eased progress =
     (if progress < 0.5 then 4 * progress * progress * progress
      else 1 - (-2 * progress + 2) ^ 3 / 2)"

text \<open>\<^verbatim>\<open>easeInOutCubic\<close> of the foliage vertex shader.\<close>

definition easeInOutCubic :: "real \<Rightarrow> real option" where
  "easeInOutCubic x =
     (if x < 0.5 then Some (4.0 * x * x * x)
      else map_option (\<lambda>c. 1.0 - c / 2.0) (pow (-2.0 * x + 2.0) 3.0))"

text \<open>The easing contract as the specification words it.\<close>

definition ease :: "real \<Rightarrow> real" where
  "ease x = (if x < 0.5 then 4 * x ^ 3 else 1 - ((- 2 * x + 2) ^ 3) / 2)"

subsection \<open>Foliage: endpoint generation\<close>

text \<open>
  One iteration of the generation loop of \<^verbatim>\<open>Foliage\<close> draws seven numbers in this
  order: the height fraction, the azimuth, the radius factor, \<open>u\<close>, \<open>v\<close>, the
  scatter radius and the per-particle seed. The first three give the tree position.
\<close>

definition Foliage_treePos :: "nat \<Rightarrow> real \<Rightarrow> real \<Rightarrow> real \<Rightarrow> vec3" where
  "Foliage_treePos i random1 random2 random3 =
     (let h = random1;
          y = h * HEIGHT;
          rAtH = RADIUS_BASE * (1 - h);
          angle = real i * 0.1 + random2 * pi * 2;
          r = (random3 * 0.3 + 0.7) * rAtH;
          tx = cos angle * r;
          tz = sin angle * r
      in (tx, y, tz))"

text \<open>The next three draws give the scatter position (\<^verbatim>\<open>Math.cbrt\<close> is the real cube root).\<close>

definition Foliage_scatterPos :: "real \<Rightarrow> real \<Rightarrow> real \<Rightarrow> vec3" where
  "Foliage_scatterPos random4 random5 random6 =
     (let u = random4;
          v = random5;
          theta = 2 * pi * u;
          phi = arccos (2 * v - 1);
          sr = root 3 random6 * SCATTER_RADIUS;
          sx = sr * sin phi * cos theta;
          sy = sr * sin phi * sin theta + HEIGHT / 2;
          sz = sr * cos phi
      in (sx, sy, sz))"

text \<open>
  The four typed arrays the loop fills, one entry per particle (the flat arrays of
  item size 3 are read as one vector per vertex). Iteration \<open>i\<close> reads the draws
  \<open>7 i, \<dots>, 7 i + 6\<close>.
\<close>

record FoliageData =
  positions :: "vec3 list"
  treePositions :: "vec3 list"
  scatterPositions :: "vec3 list"
  randoms :: "real list"

definition Foliage_useMemo :: "(nat \<Rightarrow> real) \<Rightarrow> FoliageData" where
  "Foliage_useMemo random =
     (let count = PARTICLE_COUNT;
          treePos = map (\<lambda>i. Foliage_treePos i (random (7 * i)) (random (7 * i + 1))
                           (random (7 * i + 2))) [0..<count];
          scatterPos = map (\<lambda>i. Foliage_scatterPos (random (7 * i + 3)) (random (7 * i + 4))
                           (random (7 * i + 5))) [0..<count];
          rands = map (\<lambda>i. random (7 * i + 6)) [0..<count]
      in \<lparr>positions = scatterPos, treePositions = treePos,
          scatterPositions = scatterPos, randoms = rands\<rparr>)"

subsection \<open>Foliage: per-frame update of the uniforms\<close>


text \<open>The new value of \<^verbatim>\<open>uProgress\<close> (Foliage \<^verbatim>\<open>useFrame\<close>, the last four lines of its body).\<close>

definition Foliage_uProgress :: "TreeState \<Rightarrow> real \<Rightarrow> real \<Rightarrow> real" where
  "Foliage_uProgress treeState delta currentProgress =
     (let targetProgress = (if treeState = TREE_SHAPE then 1.0 else 0.0);
          diff = targetProgress - currentProgress
      in currentProgress + diff * delta * TRANSITION_SPEED)"


subsection \<open>Foliage: the vertex shader\<close>

text \<open>The per-particle local progress (first line of \<^verbatim>\<open>main\<close>).\<close>

definition main_localProgress :: "real \<Rightarrow> real \<Rightarrow> real" where
  "main_localProgress uProgress aRandom = clamp (uProgress * 1.2 - aRandom * 0.2) 0.0 1.0"

text \<open>The eased progress and the mixed position, before the wind term is added.\<close>

definition main_easedProgress :: "real \<Rightarrow> real \<Rightarrow> real option" where
  "main_easedProgress uProgress aRandom = easeInOutCubic (main_localProgress uProgress aRandom)"


text \<open>
  The position handed to the view transform, with the wind displacement on \<open>x\<close> and
  \<open>z\<close>, and the twinkle alpha. Point size and colour, which depend on the camera
  matrices and on no animated quantity, are left out.
\<close>

record VertexOut =
  pos :: vec3
  vAlpha :: real

definition main :: "real \<Rightarrow> real \<Rightarrow> vec3 \<Rightarrow> vec3 \<Rightarrow> real \<Rightarrow> VertexOut option" where
  "main uTime uProgress aTreePos aScatterPos aRandom =
     (case main_easedProgress uProgress aRandom of
        None \<Rightarrow> None
      | Some easedProgress \<Rightarrow>
          (case mix3 aScatterPos aTreePos easedProgress of (x, y, z) \<Rightarrow>
             let wind = sin (uTime * 2.0 + y * 2.0 + x) * 0.08 * easedProgress
             in Some \<lparr>pos = (x + wind, y, z + wind),
                      vAlpha = 0.8 + 0.2 * sin (uTime * 3.0 + aRandom * 10.0)\<rparr>))"

subsection \<open>Ornaments: endpoint generation\<close>

text \<open>
  One iteration of the loop of \<^verbatim>\<open>generateData\<close> draws eight numbers in this order:
  height, radial jitter, azimuth, \<open>u\<close>, \<open>v\<close>, two rotation angles and the base scale.
\<close>

definition generateData_item ::
  "real \<Rightarrow> real \<Rightarrow> real \<Rightarrow> real \<Rightarrow> real \<Rightarrow> real \<Rightarrow> real \<Rightarrow> real \<Rightarrow> PositionData" where
  "generateData_item random1 random2 random3 random4 random5 random6 random7 random8 =
     (let h = random1 * (HEIGHT - 1.5) + 0.5;
          rAtH = RADIUS_BASE * (1 - (h / HEIGHT));
          r = rAtH + 0.1 + random2 * 0.2;
          angle = random3 * pi * 2;
          tx = cos angle * r;
          ty = h;
          tz = sin angle * r;
          u = random4;
          v = random5;
          theta = 2 * pi * u;
          phi = arccos (2 * v - 1);
          sr = SCATTER_RADIUS * 0.9;
          sx = sr * sin phi * cos theta;
          sy = sr * sin phi * sin theta + HEIGHT / 2;
          sz = sr * cos phi
      in \<lparr>treePosition = (tx, ty, tz),
          scatterPosition = (sx, sy, sz),
          rotation = (random6 * pi, random7 * pi, 0),
          scale = random8 * 0.3 + 0.2,
          type = box\<rparr>)"

text \<open>\<^verbatim>\<open>generateData(count)\<close>, reading the stream from position \<open>start\<close>.\<close>

definition generateData :: "nat \<Rightarrow> (nat \<Rightarrow> real) \<Rightarrow> nat \<Rightarrow> PositionData list" where
  "generateData count random start =
     map (\<lambda>i. generateData_item
                 (random (start + 8 * i)) (random (start + 8 * i + 1))
                 (random (start + 8 * i + 2)) (random (start + 8 * i + 3))
                 (random (start + 8 * i + 4)) (random (start + 8 * i + 5))
                 (random (start + 8 * i + 6)) (random (start + 8 * i + 7)))
       [0..<count]"

subsection \<open>Ornaments: instanced meshes\<close>

text \<open>
  An \<^verbatim>\<open>Object3D\<close> carries a position, Euler angles and a scale; \<^verbatim>\<open>updateMatrix\<close>
  composes its matrix from exactly these three, so an instance slot is modelled by the
  triple whose matrix was last written to it. \<open>None\<close> is a slot that still holds
  what the \<^verbatim>\<open>InstancedMesh\<close> constructor put there. (The fields \<^verbatim>\<open>rotation\<close> and
  \<^verbatim>\<open>scale\<close> are prefixed, the plain names being those of \<open>PositionData\<close>.)
\<close>

record Object3D =
  position :: vec3
  obj_rotation :: vec3
  obj_scale :: vec3

text \<open>\<^verbatim>\<open>userData.progress\<close> is \<open>None\<close> while the property is undefined.\<close>

record InstancedMesh =
  userData_progress :: "real option"
  instanceMatrix :: "Object3D option list"
  needsUpdate :: bool

text \<open>
  \<^verbatim>\<open>setMatrixAt(i, m)\<close> stores into the typed array behind \<^verbatim>\<open>instanceMatrix\<close>; a
  store beyond the end of a typed array is dropped.
\<close>

definition setMatrixAt :: "nat \<Rightarrow> Object3D \<Rightarrow> Object3D option list \<Rightarrow> Object3D option list" where
  "setMatrixAt i m buffer = buffer[i := Some m]"

text \<open>The progress integration at the head of \<^verbatim>\<open>animateMesh\<close> (lines 111 to 113).\<close>

definition animateMesh_progress :: "real option \<Rightarrow> real \<Rightarrow> real \<Rightarrow> real" where
  "animateMesh_progress stored delta targetProgress =
     (let progress = (case stored of None \<Rightarrow> 0 | Some p \<Rightarrow> p);
          diff = targetProgress - progress
      in progress + diff * delta * TRANSITION_SPEED)"

text \<open>
  The body of the \<^verbatim>\<open>forEach\<close>: the state of \<^verbatim>\<open>dummy\<close> when its matrix is taken.
  Position, rotation and scale are all overwritten in every iteration.
\<close>

definition animateMesh_dummy ::
  "PositionData \<Rightarrow> nat \<Rightarrow> real \<Rightarrow> real \<Rightarrow> real \<Rightarrow> bool \<Rightarrow> Object3D" where
  "animateMesh_dummy d i eased clockTime scaleMult wobble =
     (case treePosition d of (t0, t1, t2) \<Rightarrow>
      case scatterPosition d of (s0, s1, s2) \<Rightarrow>
      case rotation d of (r0, r1, r2) \<Rightarrow>
        let floatFactor = 1.0 - eased;
            sway = sin (clockTime * 2 + real i) * 0.1
        in \<lparr>position = (lerp s0 t0 eased, lerp s1 t1 eased, lerp s2 t2 eased),
            obj_rotation =
              (if wobble
               then (lerp (r0 + clockTime) 0 eased + sway,
                     lerp (r1 + clockTime) r1 eased,
                     lerp (r2 + clockTime) 0 eased + sway)
               else (r0 + clockTime * 0.5 * floatFactor,
                     r1 + clockTime * 0.3 * floatFactor,
                     r2)),
            obj_scale = (scale d * scaleMult, scale d * scaleMult, scale d * scaleMult)\<rparr>)"

text \<open>The calls of \<^verbatim>\<open>setMatrixAt\<close> that the \<^verbatim>\<open>forEach\<close> makes, in order.\<close>

definition animateMesh_writes ::
  "PositionData list \<Rightarrow> real \<Rightarrow> real \<Rightarrow> real \<Rightarrow> bool \<Rightarrow> (nat \<times> Object3D) list" where
  "animateMesh_writes data eased clockTime scaleMult wobble =
     map (\<lambda>(i, d). (i, animateMesh_dummy d i eased clockTime scaleMult wobble))
       (enumerate 0 data)"

definition animateMesh ::
  "InstancedMesh option \<Rightarrow> PositionData list \<Rightarrow> real \<Rightarrow> real \<Rightarrow> real \<Rightarrow> real \<Rightarrow> bool
     \<Rightarrow> InstancedMesh option" where
  "animateMesh ref data delta clockTime targetProgress scaleMult wobble =
     (case ref of
        None \<Rightarrow> None
      | Some mesh \<Rightarrow>
          let progress = animateMesh_progress (userData_progress mesh) delta targetProgress;
              eased = animateMesh_eased progress
          in Some \<lparr>userData_progress = Some progress,
                   instanceMatrix =
                     fold (\<lambda>(i, m). setMatrixAt i m)
                       (animateMesh_writes data eased clockTime scaleMult wobble)
                       (instanceMatrix mesh),
                   needsUpdate = True\<rparr>)"

subsection \<open>Ornaments: the component\<close>

record Ornaments =
  goldSpheresRef :: "InstancedMesh option"
  redBoxesRef :: "InstancedMesh option"
  bellsRef :: "InstancedMesh option"
  starRef :: "Object3D option"
  goldSphereData :: "PositionData list"
  redBoxData :: "PositionData list"
  bellData :: "PositionData list"

text \<open>The star update at the end of the frame callback.\<close>

definition useFrame_star ::
  "TreeState \<Rightarrow> real \<Rightarrow> real \<Rightarrow> InstancedMesh option \<Rightarrow> Object3D \<Rightarrow> Object3D" where
  "useFrame_star treeState time delta goldSpheres starObj =
     (let p = (case (case goldSpheres of None \<Rightarrow> None | Some mesh \<Rightarrow> userData_progress mesh) of
                 None \<Rightarrow> (if treeState = TREE_SHAPE then 1 else 0)
               | Some q \<Rightarrow> q);
          starHeight = HEIGHT;
          scatterY = starHeight + 5;
          s = 1 + sin (time * 3) * 0.1
      in (case position starObj of (px, py, pz) \<Rightarrow>
          case obj_rotation starObj of (rx, ry, rz) \<Rightarrow>
            \<lparr>position = (px, lerp scatterY starHeight p, pz),
             obj_rotation = (rx, ry + delta * 0.5, rz),
             obj_scale = (s * p, s * p, s * p)\<rparr>))"

definition Ornaments_useFrame :: "TreeState \<Rightarrow> real \<Rightarrow> real \<Rightarrow> Ornaments \<Rightarrow> Ornaments" where
  "Ornaments_useFrame treeState time delta c =
     (let targetProgress = (if treeState = TREE_SHAPE then 1.0 else 0.0);
          goldSpheres = animateMesh (goldSpheresRef c) (goldSphereData c) delta time
                          targetProgress 1.0 False;
          redBoxes = animateMesh (redBoxesRef c) (redBoxData c) delta time
                          targetProgress 1.3 False;
          bells = animateMesh (bellsRef c) (bellData c) delta time
                          targetProgress 1.0 True
      in c\<lparr>goldSpheresRef := goldSpheres,
            redBoxesRef := redBoxes,
            bellsRef := bells,
            starRef := map_option (useFrame_star treeState time delta goldSpheres) (starRef c)\<rparr>)"

text \<open>
  The component after mounting: three instanced meshes of \<^verbatim>\<open>ORNAMENT_COUNT\<close> slots
  each, the star at the apex, and the three data arrays filled by the layout effect,
  which reads the stream of draws from its start.
\<close>

definition InstancedMesh_new :: "nat \<Rightarrow> InstancedMesh" where
  "InstancedMesh_new count =
     \<lparr>userData_progress = None, instanceMatrix = replicate count None, needsUpdate = False\<rparr>"

definition Ornaments_mount :: "(nat \<Rightarrow> real) \<Rightarrow> Ornaments" where
  "Ornaments_mount random =
     (let n1 = nat \<lfloor>real ORNAMENT_COUNT * 0.4\<rfloor>;
          n2 = nat \<lfloor>real ORNAMENT_COUNT * 0.4\<rfloor>;
          n3 = nat \<lfloor>real ORNAMENT_COUNT * 0.2\<rfloor>
      in \<lparr>goldSpheresRef = Some (InstancedMesh_new ORNAMENT_COUNT),
          redBoxesRef = Some (InstancedMesh_new ORNAMENT_COUNT),
          bellsRef = Some (InstancedMesh_new ORNAMENT_COUNT),
          starRef = Some \<lparr>position = (0, HEIGHT, 0), obj_rotation = (0, 0, 0),
                          obj_scale = (1, 1, 1)\<rparr>,
          goldSphereData = generateData n1 random 0,
          redBoxData = generateData n2 random (8 * n1),
          bellData = generateData n3 random (8 * n1 + 8 * n2)\<rparr>)"

subsection \<open>The frame loop\<close>

text \<open>
  The renderer calls the frame callback once per frame with the target state, the
  elapsed time and the frame duration of that frame.
\<close>

fun Ornaments_frames :: "(TreeState \<times> real \<times> real) list \<Rightarrow> Ornaments \<Rightarrow> Ornaments" where
  "Ornaments_frames [] c = c"
| "Ornaments_frames ((treeState, time, delta) # frames) c =
     Ornaments_frames frames (Ornaments_useFrame treeState time delta c)"

text \<open>
  The successive progress values of a pool whose integrator \<open>step\<close> is run over
  frames of the given durations, starting from \<open>p\<close>.
\<close>

fun integrate :: "(real \<Rightarrow> real \<Rightarrow> real) \<Rightarrow> real \<Rightarrow> real list \<Rightarrow> real list" where
  "integrate step p [] = []"
| "integrate step p (delta # deltas) = step p delta # integrate step (step p delta) deltas"

text \<open>The update law as the specification words it.\<close>

definition update_law :: "real \<Rightarrow> real \<Rightarrow> real \<Rightarrow> real \<Rightarrow> real" where
  "update_law progress target dt k = progress + (target - progress) * dt * k"

subsection \<open>The scatter rule of the specification\<close>

text \<open>
  The scatter cloud is centred at the vertical midpoint of the tree. A point at a
  given radius around that centre, in spherical coordinates from two draws:
\<close>

definition scatter_centre :: vec3 where
  "scatter_centre = (0, HEIGHT / 2, 0)"

definition scatter_at :: "real \<Rightarrow> real \<Rightarrow> real \<Rightarrow> vec3" where
  "scatter_at radius u v =
     (let theta = 2 * pi * u;
          phi = arccos (2 * v - 1)
      in (radius * sin phi * cos theta,
          radius * sin phi * sin theta + HEIGHT / 2,
          radius * cos phi))"

text \<open>
  The rule as the specification words it: inside the sphere of radius \<open>S\<close>, the
  radius sampled as the cube root of a third draw, times \<open>S\<close>.
\<close>

definition scatter_spec :: "real \<Rightarrow> real \<Rightarrow> real \<Rightarrow> vec3" where
  "scatter_spec u v w = scatter_at (root 3 w * SCATTER_RADIUS) u v"

text \<open>Euclidean distance of two points, and the distance of a point from the vertical axis.\<close>

definition distance :: "vec3 \<Rightarrow> vec3 \<Rightarrow> real" where
  "distance p q =
     (case p of (px, py, pz) \<Rightarrow> case q of (qx, qy, qz) \<Rightarrow>
        sqrt ((px - qx)\<^sup>2 + (py - qy)\<^sup>2 + (pz - qz)\<^sup>2))"

definition axis_radius :: "vec3 \<Rightarrow> real" where
  "axis_radius p = (case p of (px, py, pz) \<Rightarrow> sqrt (px\<^sup>2 + pz\<^sup>2))"

section \<open>Properties\<close>

subsection \<open>Easing\<close>

lemma animateMesh_eased_ease: "animateMesh_eased x = ease x"
  by (simp add: animateMesh_eased_def ease_def power3_eq_cube)

lemma easeInOutCubic_ease:
  assumes "x \<le> 1"
  shows "easeInOutCubic x = Some (ease x)"
proof (cases "x < 0.5")
  case True
  then show ?thesis
    by (simp add: easeInOutCubic_def ease_def power3_eq_cube)
next
  case False
  from assms have nonneg: "0 \<le> - 2 * x + 2" by simp
  then have "pow (- 2 * x + 2) 3 = Some ((- 2 * x + 2) ^ 3)"
    by (simp add: pow_def)
  with False show ?thesis
    by (simp add: easeInOutCubic_def ease_def)
qed

lemma ease_low: "x < 1 / 2 \<Longrightarrow> ease x = 4 * x ^ 3"
  by (simp add: ease_def)

lemma ease_high:
  assumes "1 / 2 \<le> x"
  shows "ease x = 1 - 4 * (1 - x) ^ 3"
proof -
  have "- 2 * x + 2 = 2 * (1 - x)" by simp
  then have "(- 2 * x + 2) ^ 3 = 8 * (1 - x) ^ 3"
    by (simp only: power_mult_distrib) simp
  with assms show ?thesis
    by (simp add: ease_def)
qed

lemma cube_mono: "(a::real) \<le> b \<Longrightarrow> a ^ 3 \<le> b ^ 3"
  by (rule power_mono_odd) simp_all

lemma ease_mono:
  assumes "x \<le> y"
  shows "ease x \<le> ease y"
proof -
  consider "y < 1 / 2" | "1 / 2 \<le> x" | "x < 1 / 2" "1 / 2 \<le> y"
    using assms by linarith
  then show ?thesis
  proof cases
    case 1
    with assms have "x < 1 / 2" by simp
    with 1 cube_mono [OF assms] show ?thesis
      by (simp add: ease_low)
  next
    case 2
    with assms have "1 / 2 \<le> y" by simp
    moreover from assms have "(1 - y) ^ 3 \<le> (1 - x) ^ 3"
      by (intro cube_mono) simp
    ultimately show ?thesis using 2
      by (simp add: ease_high)
  next
    case 3
    from 3(1) have "x ^ 3 \<le> (1 / 2) ^ 3"
      by (intro cube_mono) simp
    then have lo: "ease x \<le> 1 / 2" using 3(1)
      by (simp add: ease_low power3_eq_cube)
    from 3(2) have "(1 - y) ^ 3 \<le> (1 / 2) ^ 3"
      by (intro cube_mono) simp
    then have "1 / 2 \<le> ease y" using 3(2)
      by (simp add: ease_high power3_eq_cube)
    with lo show ?thesis by simp
  qed
qed

lemma ease_symmetric: "ease x = 1 - ease (1 - x)"
proof -
  consider "x < 1 / 2" | "x = 1 / 2" | "1 / 2 < x" by linarith
  then show ?thesis
  proof cases
    case 1
    then show ?thesis by (simp add: ease_low ease_high)
  next
    case 2
    show ?thesis unfolding 2
      by (simp add: ease_def power3_eq_cube)
  next
    case 3
    then show ?thesis by (simp add: ease_low ease_high)
  qed
qed

text \<open>
  C2. On \<open>[0, 1]\<close> the host easing of \<^verbatim>\<open>animateMesh\<close> and the shader's
  \<^verbatim>\<open>easeInOutCubic\<close> both compute the contract \<open>ease\<close>: \<open>4x\<^sup>3\<close> below one half
  and \<open>1 - (-2x + 2)\<^sup>3 / 2\<close> from one half on, so the two paths return equal
  values (the shader's \<^verbatim>\<open>pow\<close> is defined there); \<open>ease 0 = 0\<close>,
  \<open>ease 1 = 1\<close> and \<open>ease 0.5 = 0.5\<close>.
\<close>

theorem easing_paths_agree:
  assumes "0 \<le> x" and "x \<le> 1"
  shows "animateMesh_eased x = (if x < 0.5 then 4 * x ^ 3 else 1 - ((- 2 * x + 2) ^ 3) / 2)
       \<and> easeInOutCubic x = Some (if x < 0.5 then 4 * x ^ 3 else 1 - ((- 2 * x + 2) ^ 3) / 2)
       \<and> easeInOutCubic x = Some (animateMesh_eased x)
       \<and> animateMesh_eased 0 = 0 \<and> animateMesh_eased 1 = 1 \<and> animateMesh_eased 0.5 = 0.5
       \<and> easeInOutCubic 0 = Some 0 \<and> easeInOutCubic 1 = Some 1
       \<and> easeInOutCubic 0.5 = Some 0.5"
proof -
  have host: "animateMesh_eased x = ease x"
    by (rule animateMesh_eased_ease)
  have shader: "easeInOutCubic x = Some (ease x)"
    using assms(2) by (rule easeInOutCubic_ease)
  have points: "ease 0 = 0" "ease 1 = 1" "ease 0.5 = 0.5"
    by (simp_all add: ease_def power3_eq_cube)
  have shader_points: "easeInOutCubic 0 = Some (ease 0)" "easeInOutCubic 1 = Some (ease 1)"
    "easeInOutCubic 0.5 = Some (ease 0.5)"
    by (simp_all add: easeInOutCubic_ease)
  from host shader points shader_points show ?thesis
    by (simp add: animateMesh_eased_ease ease_def)
qed

theorem easing_paths_agree_witness:
  "(0::real) \<le> 3 / 4 \<and> (3 / 4 ::real) \<le> 1
   \<and> animateMesh_eased (3 / 4) = 15 / 16
   \<and> easeInOutCubic (3 / 4) = Some (15 / 16)"
  using easing_paths_agree [of "3 / 4"] by (simp add: power3_eq_cube)

text \<open>
  C8. On \<open>[0, 1]\<close> the easing function, on the host and in the shader, is
  monotonically non-decreasing and point-symmetric around one half:
  \<open>ease x = 1 - ease (1 - x)\<close>.
\<close>

theorem easing_monotone_symmetric:
  assumes "0 \<le> x" and "x \<le> y" and "y \<le> 1"
  shows "animateMesh_eased x \<le> animateMesh_eased y
       \<and> animateMesh_eased x = 1 - animateMesh_eased (1 - x)
       \<and> (\<exists>a b c. easeInOutCubic x = Some a \<and> easeInOutCubic y = Some b
              \<and> easeInOutCubic (1 - x) = Some c \<and> a \<le> b \<and> a = 1 - c)"
proof -
  from assms have "x \<le> 1" and "1 - x \<le> 1" by simp_all
  with assms(3) have "easeInOutCubic x = Some (ease x)" "easeInOutCubic y = Some (ease y)"
    "easeInOutCubic (1 - x) = Some (ease (1 - x))"
    by (simp_all add: easeInOutCubic_ease)
  moreover have "ease x \<le> ease y"
    using assms(2) by (rule ease_mono)
  moreover have "ease x = 1 - ease (1 - x)"
    by (rule ease_symmetric)
  ultimately show ?thesis
    by (simp add: animateMesh_eased_ease)
qed

theorem easing_monotone_symmetric_witness:
  "(0::real) \<le> 1 / 4 \<and> (1 / 4 ::real) \<le> 3 / 4 \<and> (3 / 4 ::real) \<le> 1
   \<and> animateMesh_eased (1 / 4) \<le> animateMesh_eased (3 / 4)
   \<and> animateMesh_eased (1 / 4) = 1 - animateMesh_eased (1 - 1 / 4)"
  using easing_monotone_symmetric [of "1 / 4" "3 / 4"] by simp

subsection \<open>Local progress\<close>

text \<open>
  C7. In the particle shader the local progress of an element is
  \<open>clamp (uProgress \<cdot> 1.2 - aRandom \<cdot> 0.2) 0 1\<close>: for a fixed global progress an
  element with a larger seed never has a larger local progress than one with a
  smaller seed, and the local progress always lies in \<open>[0, 1]\<close>.
\<close>

theorem localProgress_staggered:
  assumes "aRandom1 \<le> aRandom2"
  shows "main_localProgress uProgress aRandom2 \<le> main_localProgress uProgress aRandom1
       \<and> 0 \<le> main_localProgress uProgress aRandom1
       \<and> main_localProgress uProgress aRandom1 \<le> 1
       \<and> main_localProgress uProgress aRandom1
           = min (max (uProgress * 1.2 - aRandom1 * 0.2) 0) 1"
  using assms by (auto simp: main_localProgress_def clamp_def)

theorem localProgress_staggered_witness:
  "(1 / 4 :: real) \<le> 3 / 4
   \<and> main_localProgress (1 / 2) (3 / 4) \<le> main_localProgress (1 / 2) (1 / 4)
   \<and> main_localProgress (1 / 2) (1 / 4) = 11 / 20
   \<and> main_localProgress (1 / 2) (3 / 4) = 9 / 20"
  using localProgress_staggered [of "1 / 4" "3 / 4" "1 / 2"]
  by (simp add: main_localProgress_def clamp_def)

subsection \<open>Progress integration\<close>

lemma animateMesh_progress_law:
  "animateMesh_progress (Some p) dt target = update_law p target dt TRANSITION_SPEED"
  by (simp add: animateMesh_progress_def update_law_def)

lemma animateMesh_progress_undefined:
  "animateMesh_progress None dt target = animateMesh_progress (Some 0) dt target"
  by (simp add: animateMesh_progress_def)

lemma Foliage_uProgress_law:
  "Foliage_uProgress treeState dt p
     = update_law p (if treeState = TREE_SHAPE then 1 else 0) dt TRANSITION_SPEED"
  by (simp add: Foliage_uProgress_def update_law_def)

lemma update_law_toward_one:
  assumes "0 \<le> dt" and "dt \<le> 1 / 2" and "p \<le> 1"
  shows "p \<le> update_law p 1 dt TRANSITION_SPEED \<and> update_law p 1 dt TRANSITION_SPEED \<le> 1"
proof -
  from assms have gap: "0 \<le> 1 - p" and rate: "0 \<le> dt * 2" "dt * 2 \<le> 1" by simp_all
  from gap rate(1) have "0 \<le> (1 - p) * (dt * 2)" by (rule mult_nonneg_nonneg)
  moreover from rate(2) gap have "(1 - p) * (dt * 2) \<le> (1 - p) * 1" by (rule mult_left_mono)
  ultimately show ?thesis
    by (simp add: update_law_def TRANSITION_SPEED_def mult.assoc)
qed

lemma update_law_toward_zero:
  assumes "0 \<le> dt" and "dt \<le> 1 / 2" and "0 \<le> p"
  shows "0 \<le> update_law p 0 dt TRANSITION_SPEED \<and> update_law p 0 dt TRANSITION_SPEED \<le> p"
proof -
  from assms have rate: "0 \<le> dt * 2" "dt * 2 \<le> 1" by simp_all
  from assms(3) rate(1) have "0 \<le> p * (dt * 2)" by (rule mult_nonneg_nonneg)
  moreover from rate(2) assms(3) have "p * (dt * 2) \<le> p * 1" by (rule mult_left_mono)
  ultimately show ?thesis
    by (simp add: update_law_def TRANSITION_SPEED_def mult.assoc)
qed

lemma integrate_toward_one:
  assumes step: "\<And>p dt. step p dt = update_law p 1 dt TRANSITION_SPEED"
    and frames: "\<forall>dt \<in> set deltas. 0 \<le> dt \<and> dt \<le> 1 / 2"
    and start: "p \<le> 1"
  shows "sorted (p # integrate step p deltas) \<and> (\<forall>q \<in> set (integrate step p deltas). q \<le> 1)"
  using frames start
proof (induction deltas arbitrary: p)
  case Nil
  then show ?case by simp
next
  case (Cons dt deltas)
  let ?q = "step p dt"
  from Cons.prems have dt: "0 \<le> dt" "dt \<le> 1 / 2" by simp_all
  with Cons.prems(2) have q: "p \<le> ?q" "?q \<le> 1"
    using update_law_toward_one [of dt p] by (simp_all add: step)
  from Cons.prems(1) have "\<forall>dt \<in> set deltas. 0 \<le> dt \<and> dt \<le> 1 / 2" by simp
  from Cons.IH [OF this q(2)]
  have ih: "sorted (?q # integrate step ?q deltas)" "\<forall>r \<in> set (integrate step ?q deltas). r \<le> 1"
    by simp_all
  from ih(1) have "\<forall>r \<in> set (integrate step ?q deltas). ?q \<le> r" by simp
  with q(1) have "\<forall>r \<in> set (integrate step ?q deltas). p \<le> r" by fastforce
  with ih q show ?case by simp
qed

lemma integrate_toward_zero:
  assumes step: "\<And>p dt. step p dt = update_law p 0 dt TRANSITION_SPEED"
    and frames: "\<forall>dt \<in> set deltas. 0 \<le> dt \<and> dt \<le> 1 / 2"
    and start: "0 \<le> p"
  shows "\<forall>q \<in> set (integrate step p deltas). 0 \<le> q"
  using frames start
proof (induction deltas arbitrary: p)
  case Nil
  then show ?case by simp
next
  case (Cons dt deltas)
  let ?q = "step p dt"
  from Cons.prems have dt: "0 \<le> dt" "dt \<le> 1 / 2" by simp_all
  with Cons.prems(2) have q: "0 \<le> ?q"
    using update_law_toward_zero [of dt p] by (simp add: step)
  from Cons.prems(1) have "\<forall>dt \<in> set deltas. 0 \<le> dt \<and> dt \<le> 1 / 2" by simp
  from Cons.IH [OF this q] q show ?case by simp
qed


text \<open>
  C1, as amended. One frame of every pool's integrator (the three ornament pools in
  \<^verbatim>\<open>animateMesh\<close>, an undefined stored value counting as \<open>0\<close>, and the particle
  field in the frame callback of \<^verbatim>\<open>Foliage\<close>) updates the progress to
  \<open>progress + (target - progress) \<cdot> \<Delta>t \<cdot> k\<close> with the one constant
  \<open>k = TRANSITION_SPEED\<close>. When every frame duration satisfies
  \<open>0 \<le> \<Delta>t \<le> 1 / k = 0.5\<close>, repeated integration toward target \<open>1\<close> from
  \<open>0\<close> never exceeds \<open>1\<close> and never decreases, and toward target \<open>0\<close> from a
  non-negative value never goes negative.
\<close>

theorem progress_integrator_bounded:
  assumes "\<forall>dt \<in> set deltas. 0 \<le> dt \<and> dt \<le> 1 / 2"
  shows "animateMesh_progress (Some p) dt target = p + (target - p) * dt * TRANSITION_SPEED
       \<and> animateMesh_progress None dt target = 0 + (target - 0) * dt * TRANSITION_SPEED
       \<and> Foliage_uProgress treeState dt p
           = p + ((if treeState = TREE_SHAPE then 1 else 0) - p) * dt * TRANSITION_SPEED
       \<and> sorted (0 # integrate (\<lambda>p dt. animateMesh_progress (Some p) dt 1) 0 deltas)
       \<and> (\<forall>q \<in> set (integrate (\<lambda>p dt. animateMesh_progress (Some p) dt 1) 0 deltas). q \<le> 1)
       \<and> sorted (0 # integrate (\<lambda>p dt. Foliage_uProgress TREE_SHAPE dt p) 0 deltas)
       \<and> (\<forall>q \<in> set (integrate (\<lambda>p dt. Foliage_uProgress TREE_SHAPE dt p) 0 deltas). q \<le> 1)
       \<and> (0 \<le> p0 \<longrightarrow>
            (\<forall>q \<in> set (integrate (\<lambda>p dt. animateMesh_progress (Some p) dt 0) p0 deltas). 0 \<le> q)
          \<and> (\<forall>q \<in> set (integrate (\<lambda>p dt. Foliage_uProgress SCATTERED dt p) p0 deltas). 0 \<le> q))"
proof -
  have law: "animateMesh_progress (Some p) dt target = p + (target - p) * dt * TRANSITION_SPEED"
    "animateMesh_progress None dt target = 0 + (target - 0) * dt * TRANSITION_SPEED"
    "Foliage_uProgress treeState dt p
       = p + ((if treeState = TREE_SHAPE then 1 else 0) - p) * dt * TRANSITION_SPEED"
    by (simp_all add: animateMesh_progress_def Foliage_uProgress_def)
  have host_up: "sorted (0 # integrate (\<lambda>p dt. animateMesh_progress (Some p) dt 1) 0 deltas)
      \<and> (\<forall>q \<in> set (integrate (\<lambda>p dt. animateMesh_progress (Some p) dt 1) 0 deltas). q \<le> 1)"
    using assms by (intro integrate_toward_one) (simp_all add: animateMesh_progress_law)
  have field_up: "sorted (0 # integrate (\<lambda>p dt. Foliage_uProgress TREE_SHAPE dt p) 0 deltas)
      \<and> (\<forall>q \<in> set (integrate (\<lambda>p dt. Foliage_uProgress TREE_SHAPE dt p) 0 deltas). q \<le> 1)"
    using assms by (intro integrate_toward_one) (simp_all add: Foliage_uProgress_law)
  have host_down: "\<forall>q \<in> set (integrate (\<lambda>p dt. animateMesh_progress (Some p) dt 0) p0 deltas). 0 \<le> q"
    if "0 \<le> p0"
    using assms that by (intro integrate_toward_zero) (simp_all add: animateMesh_progress_law)
  have field_down: "\<forall>q \<in> set (integrate (\<lambda>p dt. Foliage_uProgress SCATTERED dt p) p0 deltas). 0 \<le> q"
    if "0 \<le> p0"
    using assms that by (intro integrate_toward_zero) (simp_all add: Foliage_uProgress_law)
  from law host_up field_up host_down field_down show ?thesis
    by blast
qed

theorem progress_integrator_bounded_witness:
  "(0::real) \<le> 1 / 4 \<and> (1 / 4 :: real) \<le> 1 / 2 \<and> (0::real) \<le> 1 / 2 \<and> (1 / 2 :: real) \<le> 1 / 2
   \<and> (0::real) \<le> 1
   \<and> integrate (\<lambda>p dt. animateMesh_progress (Some p) dt 1) 0 [1 / 4, 1 / 2] = [1 / 2, 1]
   \<and> sorted (0 # integrate (\<lambda>p dt. animateMesh_progress (Some p) dt 1) 0 [1 / 4, 1 / 2])
   \<and> integrate (\<lambda>p dt. Foliage_uProgress TREE_SHAPE dt p) 0 [1 / 4, 1 / 2] = [1 / 2, 1]
   \<and> integrate (\<lambda>p dt. animateMesh_progress (Some p) dt 0) 1 [1 / 4, 1 / 2] = [1 / 2, 0]
   \<and> integrate (\<lambda>p dt. Foliage_uProgress SCATTERED dt p) 1 [1 / 4, 1 / 2] = [1 / 2, 0]"
  using progress_integrator_bounded [of "[1 / 4, 1 / 2]" _ _ _ _ 1]
  by (simp add: animateMesh_progress_def Foliage_uProgress_def TRANSITION_SPEED_def)

text \<open>
  For a frame duration above \<open>1 / k\<close> the integrator does overshoot: with
  \<open>\<Delta>t = 1\<close> one frame takes the progress from \<open>0\<close> to \<open>2\<close> toward target
  \<open>1\<close>, the next frame brings it back down to \<open>0\<close>, and toward target \<open>0\<close> one
  frame takes \<open>1\<close> to \<open>-1\<close>.
\<close>

theorem progress_overshoot_counterexample:
  "(0::real) \<le> 1
   \<and> animateMesh_progress (Some 0) 1 1 = 2
   \<and> Foliage_uProgress TREE_SHAPE 1 0 = 2
   \<and> \<not> animateMesh_progress (Some 0) 1 1 \<le> 1
   \<and> animateMesh_progress (Some (animateMesh_progress (Some 0) 1 1)) 1 1
       < animateMesh_progress (Some 0) 1 1
   \<and> animateMesh_progress (Some 1) 1 0 < 0
   \<and> Foliage_uProgress SCATTERED 1 1 < 0"
  by (simp add: animateMesh_progress_def Foliage_uProgress_def TRANSITION_SPEED_def)

subsection \<open>The instance loop\<close>

lemma fold_setMatrixAt_length:
  "length (fold (\<lambda>(i, m). setMatrixAt i m) writes buffer) = length buffer"
  by (induction writes arbitrary: buffer) (auto simp: setMatrixAt_def)

lemma fold_setMatrixAt_nth:
  assumes "j < length buffer"
  shows "fold (\<lambda>(i, m). setMatrixAt i m) (map (\<lambda>(i, d). (i, g d i)) (enumerate n data)) buffer ! j
       = (if n \<le> j \<and> j < n + length data then Some (g (data ! (j - n)) j) else buffer ! j)"
  using assms
proof (induction data arbitrary: n buffer)
  case Nil
  then show ?case by auto
next
  case (Cons d data)
  let ?buffer = "setMatrixAt n (g d n) buffer"
  from Cons.prems have len: "j < length ?buffer"
    by (simp add: setMatrixAt_def)
  have step: "fold (\<lambda>(i, m). setMatrixAt i m)
                (map (\<lambda>(i, d). (i, g d i)) (enumerate n (d # data))) buffer
            = fold (\<lambda>(i, m). setMatrixAt i m)
                (map (\<lambda>(i, d). (i, g d i)) (enumerate (Suc n) data)) ?buffer"
    by simp
  show ?case
  proof (cases "j = n")
    case True
    with Cons.prems show ?thesis
      unfolding step Cons.IH [OF len] by (simp add: setMatrixAt_def)
  next
    case False
    have "(d # data) ! (j - n) = data ! (j - Suc n)" if "n \<le> j"
    proof -
      from that False have "j - n = Suc (j - Suc n)" by simp
      then show ?thesis by simp
    qed
    with False Cons.prems show ?thesis
      unfolding step Cons.IH [OF len] by (auto simp: setMatrixAt_def)
  qed
qed

lemma animateMesh_Some:
  "animateMesh (Some mesh) data delta clockTime targetProgress scaleMult wobble =
     Some \<lparr>userData_progress = Some (animateMesh_progress (userData_progress mesh) delta targetProgress),
           instanceMatrix =
             fold (\<lambda>(i, m). setMatrixAt i m)
               (animateMesh_writes data
                  (animateMesh_eased (animateMesh_progress (userData_progress mesh) delta targetProgress))
                  clockTime scaleMult wobble)
               (instanceMatrix mesh),
           needsUpdate = True\<rparr>"
  by (simp add: animateMesh_def Let_def)

lemma animateMesh_slot:
  assumes "animateMesh (Some mesh) data delta clockTime targetProgress scaleMult wobble = Some mesh'"
    and "j < length (instanceMatrix mesh)"
  shows "instanceMatrix mesh' ! j =
           (if j < length data
            then Some (animateMesh_dummy (data ! j) j
                   (animateMesh_eased (animateMesh_progress (userData_progress mesh) delta targetProgress))
                   clockTime scaleMult wobble)
            else instanceMatrix mesh ! j)"
  using assms fold_setMatrixAt_nth [of j "instanceMatrix mesh"
      "\<lambda>d i. animateMesh_dummy d i
         (animateMesh_eased (animateMesh_progress (userData_progress mesh) delta targetProgress))
         clockTime scaleMult wobble" 0 data]
  by (auto simp: animateMesh_Some animateMesh_writes_def)

lemma animateMesh_length:
  assumes "animateMesh (Some mesh) data delta clockTime targetProgress scaleMult wobble = Some mesh'"
  shows "length (instanceMatrix mesh') = length (instanceMatrix mesh)"
  using assms by (auto simp: animateMesh_Some fold_setMatrixAt_length)

lemma animateMesh_progress_after:
  assumes "animateMesh (Some mesh) data delta clockTime targetProgress scaleMult wobble = Some mesh'"
  shows "userData_progress mesh' = Some (animateMesh_progress (userData_progress mesh) delta targetProgress)"
  using assms by (auto simp: animateMesh_Some)





text \<open>
  The vertex that is rendered is the mixed position displaced by the wind term, which
  does not vanish at full progress: a formed particle sways around its tree endpoint.
\<close>

lemma main_formed_wind:
  assumes "aRandom \<le> 1"
  shows "main uTime 1 (x, y, z) aScatterPos aRandom =
           Some \<lparr>pos = (x + sin (uTime * 2 + y * 2 + x) * 0.08, y,
                         z + sin (uTime * 2 + y * 2 + x) * 0.08),
                 vAlpha = 0.8 + 0.2 * sin (uTime * 3 + aRandom * 10)\<rparr>"
proof -
  from assms have "main_localProgress 1 aRandom = 1"
    by (simp add: main_localProgress_def clamp_def)
  then have "main_easedProgress 1 aRandom = Some 1"
    by (simp add: main_easedProgress_def easeInOutCubic_def pow_def)
  then show ?thesis
    by (cases aScatterPos) (simp add: main_def mix3_def mix_def Let_def)
qed

subsection \<open>Blending reaches the endpoints\<close>



subsection \<open>A frame of zero duration\<close>






text \<open>
  The first frame after mounting has no update before it: whatever its duration, it
  stores the first progress value and writes the first transforms.
\<close>

lemma first_frame_after_mount:
  "map_option userData_progress (goldSpheresRef (Ornaments_mount random)) = Some None
   \<and> map_option userData_progress
        (goldSpheresRef (Ornaments_useFrame treeState time 0 (Ornaments_mount random)))
      = Some (Some 0)"
  by (simp add: Ornaments_mount_def Ornaments_useFrame_def Let_def InstancedMesh_new_def
      animateMesh_Some animateMesh_progress_def)


subsection \<open>Missing progress values\<close>

lemma useFrame_star_cases:
  "useFrame_star treeState time delta goldSpheres starObj =
     (let p = (case goldSpheres of
                 None \<Rightarrow> (if treeState = TREE_SHAPE then 1 else 0)
               | Some mesh \<Rightarrow>
                   (case userData_progress mesh of
                      None \<Rightarrow> (if treeState = TREE_SHAPE then 1 else 0)
                    | Some q \<Rightarrow> q))
      in \<lparr>position = (fst (position starObj), lerp (HEIGHT + 5) HEIGHT p,
                       snd (snd (position starObj))),
           obj_rotation = (fst (obj_rotation starObj),
                           fst (snd (obj_rotation starObj)) + delta * 0.5,
                           snd (snd (obj_rotation starObj))),
           obj_scale = ((1 + sin (time * 3) * 0.1) * p, (1 + sin (time * 3) * 0.1) * p,
                        (1 + sin (time * 3) * 0.1) * p)\<rparr>)"
  by (cases "position starObj"; cases "obj_rotation starObj"; cases goldSpheres)
     (simp_all add: useFrame_star_def Let_def split: option.splits)

text \<open>
  C9, as amended. When the stored progress of an instanced pool is undefined at the
  start of a frame update, \<^verbatim>\<open>animateMesh\<close> proceeds exactly as from the stored value
  \<open>0\<close>: it stores a defined progress and writes, for every instance of the pool, the
  transform computed from it. The star is updated after the sphere pool: when the
  sphere mesh is mounted and its progress was undefined, the star reads the value the
  pool has just stored, \<open>0 + (target - 0) \<cdot> \<Delta>t \<cdot> k\<close>; only when the sphere mesh is
  not mounted does it take \<open>1\<close> or \<open>0\<close> from the current target state. In both cases
  its position and scale are the ones computed from that value, and no step of the
  update has a failing branch.
\<close>

theorem missing_progress_defaults:
  assumes "userData_progress mesh = None"
    and "i < length data" and "i < length (instanceMatrix mesh)"
    and "starRef c = Some starObj"
  shows "(\<exists>mesh'.
            animateMesh (Some mesh) data delta clockTime targetProgress scaleMult wobble = Some mesh'
          \<and> animateMesh (Some (mesh\<lparr>userData_progress := Some 0\<rparr>)) data delta clockTime
               targetProgress scaleMult wobble = Some mesh'
          \<and> userData_progress mesh' = Some (0 + (targetProgress - 0) * delta * TRANSITION_SPEED)
          \<and> instanceMatrix mesh' ! i =
               Some (animateMesh_dummy (data ! i) i
                      (animateMesh_eased (0 + (targetProgress - 0) * delta * TRANSITION_SPEED))
                      clockTime scaleMult wobble))
       \<and> (goldSpheresRef c = Some mesh \<longrightarrow>
            (\<exists>mesh'. goldSpheresRef (Ornaments_useFrame treeState clockTime delta c) = Some mesh'
               \<and> userData_progress mesh' =
                   Some (0 + ((if treeState = TREE_SHAPE then 1 else 0) - 0) * delta
                           * TRANSITION_SPEED))
          \<and> starRef (Ornaments_useFrame treeState clockTime delta c) =
              Some \<lparr>position = (fst (position starObj),
                       lerp (HEIGHT + 5) HEIGHT
                         (0 + ((if treeState = TREE_SHAPE then 1 else 0) - 0) * delta
                            * TRANSITION_SPEED),
                       snd (snd (position starObj))),
                    obj_rotation = (fst (obj_rotation starObj),
                                    fst (snd (obj_rotation starObj)) + delta * 0.5,
                                    snd (snd (obj_rotation starObj))),
                    obj_scale =
                      ((1 + sin (clockTime * 3) * 0.1)
                         * (0 + ((if treeState = TREE_SHAPE then 1 else 0) - 0) * delta
                              * TRANSITION_SPEED),
                       (1 + sin (clockTime * 3) * 0.1)
                         * (0 + ((if treeState = TREE_SHAPE then 1 else 0) - 0) * delta
                              * TRANSITION_SPEED),
                       (1 + sin (clockTime * 3) * 0.1)
                         * (0 + ((if treeState = TREE_SHAPE then 1 else 0) - 0) * delta
                              * TRANSITION_SPEED))\<rparr>)
       \<and> (goldSpheresRef c = None \<longrightarrow>
            starRef (Ornaments_useFrame treeState clockTime delta c) =
              Some \<lparr>position = (fst (position starObj),
                       lerp (HEIGHT + 5) HEIGHT (if treeState = TREE_SHAPE then 1 else 0),
                       snd (snd (position starObj))),
                    obj_rotation = (fst (obj_rotation starObj),
                                    fst (snd (obj_rotation starObj)) + delta * 0.5,
                                    snd (snd (obj_rotation starObj))),
                    obj_scale =
                      ((1 + sin (clockTime * 3) * 0.1) * (if treeState = TREE_SHAPE then 1 else 0),
                       (1 + sin (clockTime * 3) * 0.1) * (if treeState = TREE_SHAPE then 1 else 0),
                       (1 + sin (clockTime * 3) * 0.1) * (if treeState = TREE_SHAPE then 1 else 0))\<rparr>)"
proof -
  let ?run = "animateMesh (Some mesh) data delta clockTime targetProgress scaleMult wobble"
  let ?target = "if treeState = TREE_SHAPE then 1 else 0 :: real"
  obtain mesh' where run: "?run = Some mesh'"
    by (simp add: animateMesh_Some)
  have same: "animateMesh (Some (mesh\<lparr>userData_progress := Some 0\<rparr>)) data delta clockTime
      targetProgress scaleMult wobble = Some mesh'"
    using run assms(1) by (simp add: animateMesh_Some animateMesh_progress_def)
  have start: "animateMesh_progress (userData_progress mesh) delta target
      = 0 + (target - 0) * delta * TRANSITION_SPEED" for target
    using assms(1) by (simp add: animateMesh_progress_def)
  have progress: "userData_progress mesh' = Some (0 + (targetProgress - 0) * delta * TRANSITION_SPEED)"
    using animateMesh_progress_after [OF run] start by simp
  have slot: "instanceMatrix mesh' ! i =
      Some (animateMesh_dummy (data ! i) i
             (animateMesh_eased (0 + (targetProgress - 0) * delta * TRANSITION_SPEED))
             clockTime scaleMult wobble)"
    using animateMesh_slot [OF run assms(3)] assms(2) start by simp
  have pool: "\<exists>mesh'.
      animateMesh (Some mesh) data delta clockTime targetProgress scaleMult wobble = Some mesh'
    \<and> animateMesh (Some (mesh\<lparr>userData_progress := Some 0\<rparr>)) data delta clockTime
         targetProgress scaleMult wobble = Some mesh'
    \<and> userData_progress mesh' = Some (0 + (targetProgress - 0) * delta * TRANSITION_SPEED)
    \<and> instanceMatrix mesh' ! i =
         Some (animateMesh_dummy (data ! i) i
                (animateMesh_eased (0 + (targetProgress - 0) * delta * TRANSITION_SPEED))
                clockTime scaleMult wobble)"
    using run same progress slot by blast
  have mounted: "(\<exists>mesh'. goldSpheresRef (Ornaments_useFrame treeState clockTime delta c) = Some mesh'
         \<and> userData_progress mesh' = Some (0 + (?target - 0) * delta * TRANSITION_SPEED))
       \<and> starRef (Ornaments_useFrame treeState clockTime delta c) =
           Some (useFrame_star treeState clockTime delta
                  (Some \<lparr>userData_progress = Some (0 + (?target - 0) * delta * TRANSITION_SPEED),
                         instanceMatrix =
                           fold (\<lambda>(i, m). setMatrixAt i m)
                             (animateMesh_writes (goldSphereData c)
                                (animateMesh_eased (0 + (?target - 0) * delta * TRANSITION_SPEED))
                                clockTime 1 False)
                             (instanceMatrix mesh),
                         needsUpdate = True\<rparr>) starObj)"
    if "goldSpheresRef c = Some mesh"
    using that assms(1,4)
    by (cases treeState)
       (simp_all add: Ornaments_useFrame_def Let_def animateMesh_Some animateMesh_progress_def)
  have unmounted: "starRef (Ornaments_useFrame treeState clockTime delta c) =
      Some (useFrame_star treeState clockTime delta None starObj)"
    if "goldSpheresRef c = None"
    using that assms(4) by (simp add: Ornaments_useFrame_def Let_def animateMesh_def)
  from pool mounted unmounted show ?thesis
    unfolding useFrame_star_cases by (simp add: Let_def)
qed

theorem missing_progress_defaults_witness:
  "userData_progress (InstancedMesh_new 2) = None
   \<and> (0::nat) < length [\<lparr>treePosition = (2::real, 4::real, 6::real), scatterPosition = (0, 0, 0),
                          rotation = (0, 0, 0), scale = 1, type = box\<rparr>]
   \<and> (0::nat) < length (instanceMatrix (InstancedMesh_new 2))
   \<and> (\<exists>mesh'.
         animateMesh (Some (InstancedMesh_new 2))
           [\<lparr>treePosition = (2, 4, 6), scatterPosition = (0, 0, 0),
             rotation = (0, 0, 0), scale = 1, type = box\<rparr>] (1 / 4) 0 1 1 False = Some mesh'
       \<and> userData_progress mesh' = Some (1 / 2)
       \<and> instanceMatrix mesh' =
           [Some \<lparr>position = (1, 2, 3), obj_rotation = (0, 0, 0), obj_scale = (1, 1, 1)\<rparr>, None])
   \<and> starRef (Ornaments_useFrame TREE_SHAPE 0 (1 / 4)
        \<lparr>goldSpheresRef = Some (InstancedMesh_new 2), redBoxesRef = None, bellsRef = None,
         starRef = Some \<lparr>position = (0, HEIGHT, 0), obj_rotation = (0, 0, 0),
                         obj_scale = (1, 1, 1)\<rparr>,
         goldSphereData = [], redBoxData = [], bellData = []\<rparr>)
     = Some \<lparr>position = (0, 23 / 2, 0), obj_rotation = (0, 1 / 8, 0),
             obj_scale = (1 / 2, 1 / 2, 1 / 2)\<rparr>
   \<and> starRef (Ornaments_useFrame TREE_SHAPE 0 (1 / 4)
        \<lparr>goldSpheresRef = None, redBoxesRef = None, bellsRef = None,
         starRef = Some \<lparr>position = (0, HEIGHT, 0), obj_rotation = (0, 0, 0),
                         obj_scale = (1, 1, 1)\<rparr>,
         goldSphereData = [], redBoxData = [], bellData = []\<rparr>)
     = Some \<lparr>position = (0, 9, 0), obj_rotation = (0, 1 / 8, 0), obj_scale = (1, 1, 1)\<rparr>"
  using missing_progress_defaults [where mesh = "InstancedMesh_new 2" and i = 0
      and data = "[\<lparr>treePosition = (2, 4, 6), scatterPosition = (0, 0, 0),
                     rotation = (0, 0, 0), scale = 1, type = box\<rparr>]"
      and delta = "1 / 4" and clockTime = 0 and targetProgress = 1 and scaleMult = 1
      and wobble = False and treeState = TREE_SHAPE
      and starObj = "\<lparr>position = (0, HEIGHT, 0), obj_rotation = (0, 0, 0),
                        obj_scale = (1, 1, 1)\<rparr>"
      and c = "\<lparr>goldSpheresRef = Some (InstancedMesh_new 2), redBoxesRef = None, bellsRef = None,
         starRef = Some \<lparr>position = (0, HEIGHT, 0), obj_rotation = (0, 0, 0),
                         obj_scale = (1, 1, 1)\<rparr>,
         goldSphereData = [], redBoxData = [], bellData = []\<rparr>"]
    missing_progress_defaults [where mesh = "InstancedMesh_new 2" and i = 0
      and data = "[\<lparr>treePosition = (2, 4, 6), scatterPosition = (0, 0, 0),
                     rotation = (0, 0, 0), scale = 1, type = box\<rparr>]"
      and delta = "1 / 4" and clockTime = 0 and targetProgress = 1 and scaleMult = 1
      and wobble = False and treeState = TREE_SHAPE
      and starObj = "\<lparr>position = (0, HEIGHT, 0), obj_rotation = (0, 0, 0),
                        obj_scale = (1, 1, 1)\<rparr>"
      and c = "\<lparr>goldSpheresRef = None, redBoxesRef = None, bellsRef = None,
         starRef = Some \<lparr>position = (0, HEIGHT, 0), obj_rotation = (0, 0, 0),
                         obj_scale = (1, 1, 1)\<rparr>,
         goldSphereData = [], redBoxData = [], bellData = []\<rparr>"]
  by (simp add: InstancedMesh_new_def animateMesh_Some animateMesh_progress_def
      animateMesh_writes_def animateMesh_dummy_def animateMesh_eased_def setMatrixAt_def
      lerp_def TRANSITION_SPEED_def HEIGHT_def numeral_2_eq_2)

text \<open>
  On the freshly mounted component the progress of the sphere pool is undefined. In
  its first frame, with the target state \<open>TREE_SHAPE\<close> and \<open>\<Delta>t = 1 / 4\<close>, the star
  is placed at height \<open>11.5\<close> with scale \<open>0.5\<close>, from the progress \<open>0.5\<close> that the
  pool has just stored; the value taken from the target state, \<open>1\<close>, would place it
  at height \<open>9\<close> with scale \<open>1\<close>.
\<close>

theorem missing_progress_star_counterexample:
  "map_option userData_progress (goldSpheresRef (Ornaments_mount (\<lambda>n. 0))) = Some None
   \<and> starRef (Ornaments_useFrame TREE_SHAPE 0 (1 / 4) (Ornaments_mount (\<lambda>n. 0)))
       = Some \<lparr>position = (0, 23 / 2, 0), obj_rotation = (0, 1 / 8, 0),
               obj_scale = (1 / 2, 1 / 2, 1 / 2)\<rparr>
   \<and> lerp (HEIGHT + 5) HEIGHT 1 = 9
   \<and> starRef (Ornaments_useFrame TREE_SHAPE 0 (1 / 4) (Ornaments_mount (\<lambda>n. 0)))
       \<noteq> Some \<lparr>position = (0, lerp (HEIGHT + 5) HEIGHT 1, 0), obj_rotation = (0, 1 / 8, 0),
               obj_scale = (1, 1, 1)\<rparr>"
  by (simp add: Ornaments_mount_def Ornaments_useFrame_def Let_def InstancedMesh_new_def
      animateMesh_Some animateMesh_progress_def useFrame_star_def lerp_def
      TRANSITION_SPEED_def HEIGHT_def)

subsection \<open>Instance slots beyond the data\<close>

lemma animateMesh_writes_indices:
  "map fst (animateMesh_writes data eased clockTime scaleMult wobble) = [0..<length data]"
proof -
  have "map fst (animateMesh_writes data eased clockTime scaleMult wobble)
      = map fst (enumerate 0 data)"
    by (simp add: animateMesh_writes_def split_def comp_def)
  then show ?thesis by simp
qed

lemma animateMesh_tail:
  assumes "animateMesh (Some mesh) data delta clockTime targetProgress scaleMult wobble = Some mesh'"
  shows "drop (length data) (instanceMatrix mesh') = drop (length data) (instanceMatrix mesh)"
proof (rule nth_equalityI)
  show "length (drop (length data) (instanceMatrix mesh'))
      = length (drop (length data) (instanceMatrix mesh))"
    using animateMesh_length [OF assms] by simp
next
  fix j
  assume "j < length (drop (length data) (instanceMatrix mesh'))"
  then have "length data + j < length (instanceMatrix mesh)"
    using animateMesh_length [OF assms] by simp
  from animateMesh_slot [OF assms this] this animateMesh_length [OF assms]
  show "drop (length data) (instanceMatrix mesh') ! j = drop (length data) (instanceMatrix mesh) ! j"
    by simp
qed

lemma Ornaments_useFrame_tail:
  assumes "goldSpheresRef c = Some g" and "redBoxesRef c = Some r" and "bellsRef c = Some b"
  shows "\<exists>g' r' b'.
           goldSpheresRef (Ornaments_useFrame treeState time delta c) = Some g'
         \<and> redBoxesRef (Ornaments_useFrame treeState time delta c) = Some r'
         \<and> bellsRef (Ornaments_useFrame treeState time delta c) = Some b'
         \<and> length (instanceMatrix g') = length (instanceMatrix g)
         \<and> length (instanceMatrix r') = length (instanceMatrix r)
         \<and> length (instanceMatrix b') = length (instanceMatrix b)
         \<and> drop (length (goldSphereData c)) (instanceMatrix g')
             = drop (length (goldSphereData c)) (instanceMatrix g)
         \<and> drop (length (redBoxData c)) (instanceMatrix r')
             = drop (length (redBoxData c)) (instanceMatrix r)
         \<and> drop (length (bellData c)) (instanceMatrix b')
             = drop (length (bellData c)) (instanceMatrix b)"
proof -
  let ?target = "if treeState = TREE_SHAPE then 1 else 0 :: real"
  obtain g' where g': "animateMesh (Some g) (goldSphereData c) delta time ?target 1 False = Some g'"
    by (simp add: animateMesh_Some)
  obtain r' where r': "animateMesh (Some r) (redBoxData c) delta time ?target 1.3 False = Some r'"
    by (simp add: animateMesh_Some)
  obtain b' where b': "animateMesh (Some b) (bellData c) delta time ?target 1 True = Some b'"
    by (simp add: animateMesh_Some)
  have "goldSpheresRef (Ornaments_useFrame treeState time delta c) = Some g'"
    "redBoxesRef (Ornaments_useFrame treeState time delta c) = Some r'"
    "bellsRef (Ornaments_useFrame treeState time delta c) = Some b'"
    using assms g' r' b' by (cases treeState; simp add: Ornaments_useFrame_def Let_def)+
  with animateMesh_length [OF g'] animateMesh_length [OF r'] animateMesh_length [OF b']
    animateMesh_tail [OF g'] animateMesh_tail [OF r'] animateMesh_tail [OF b']
  show ?thesis by simp
qed

lemma Ornaments_useFrame_data:
  "goldSphereData (Ornaments_useFrame treeState time delta c) = goldSphereData c
   \<and> redBoxData (Ornaments_useFrame treeState time delta c) = redBoxData c
   \<and> bellData (Ornaments_useFrame treeState time delta c) = bellData c"
  by (simp add: Ornaments_useFrame_def Let_def)

lemma Ornaments_frames_tail:
  assumes "goldSpheresRef c = Some g" and "redBoxesRef c = Some r" and "bellsRef c = Some b"
  shows "\<exists>g' r' b'.
           goldSpheresRef (Ornaments_frames frames c) = Some g'
         \<and> redBoxesRef (Ornaments_frames frames c) = Some r'
         \<and> bellsRef (Ornaments_frames frames c) = Some b'
         \<and> length (instanceMatrix g') = length (instanceMatrix g)
         \<and> length (instanceMatrix r') = length (instanceMatrix r)
         \<and> length (instanceMatrix b') = length (instanceMatrix b)
         \<and> drop (length (goldSphereData c)) (instanceMatrix g')
             = drop (length (goldSphereData c)) (instanceMatrix g)
         \<and> drop (length (redBoxData c)) (instanceMatrix r')
             = drop (length (redBoxData c)) (instanceMatrix r)
         \<and> drop (length (bellData c)) (instanceMatrix b')
             = drop (length (bellData c)) (instanceMatrix b)
         \<and> goldSphereData (Ornaments_frames frames c) = goldSphereData c
         \<and> redBoxData (Ornaments_frames frames c) = redBoxData c
         \<and> bellData (Ornaments_frames frames c) = bellData c"
  using assms
proof (induction frames arbitrary: c g r b)
  case Nil
  then show ?case by simp
next
  case (Cons frame frames)
  obtain treeState time delta where frame: "frame = (treeState, time, delta)"
    by (cases frame)
  let ?c = "Ornaments_useFrame treeState time delta c"
  from Ornaments_useFrame_tail [OF Cons.prems, of treeState time delta]
  obtain g1 r1 b1 where step:
    "goldSpheresRef ?c = Some g1" "redBoxesRef ?c = Some r1" "bellsRef ?c = Some b1"
    "length (instanceMatrix g1) = length (instanceMatrix g)"
    "length (instanceMatrix r1) = length (instanceMatrix r)"
    "length (instanceMatrix b1) = length (instanceMatrix b)"
    "drop (length (goldSphereData c)) (instanceMatrix g1)
       = drop (length (goldSphereData c)) (instanceMatrix g)"
    "drop (length (redBoxData c)) (instanceMatrix r1)
       = drop (length (redBoxData c)) (instanceMatrix r)"
    "drop (length (bellData c)) (instanceMatrix b1)
       = drop (length (bellData c)) (instanceMatrix b)"
    by blast
  from Cons.IH [OF step(1-3)] step(4-9) Ornaments_useFrame_data [of treeState time delta c]
  show ?case
    unfolding frame by simp
qed

lemma generateData_length: "length (generateData count random start) = count"
  by (simp add: generateData_def)

text \<open>
  C10. Each of the three instanced meshes has \<^verbatim>\<open>ORNAMENT_COUNT\<close> = 450 instance
  slots, while the data arrays hold \<open>\<lfloor>0.4 \<cdot> 450\<rfloor> = 180\<close> entries (spheres, boxes) and
  \<open>\<lfloor>0.2 \<cdot> 450\<rfloor> = 90\<close> entries (bells). A frame update calls \<^verbatim>\<open>setMatrixAt\<close> exactly
  for the indices below the length of the data array, so after any sequence of frames
  every slot from that length on still holds what the constructor put there: no
  update has written it.
\<close>

theorem unwritten_instance_slots:
  "map fst (animateMesh_writes data eased clockTime scaleMult wobble) = [0..<length data]
   \<and> ORNAMENT_COUNT = 450
   \<and> nat \<lfloor>real ORNAMENT_COUNT * 0.4\<rfloor> = 180 \<and> nat \<lfloor>real ORNAMENT_COUNT * 0.2\<rfloor> = 90
   \<and> (\<exists>g r b.
         goldSpheresRef (Ornaments_frames frames (Ornaments_mount random)) = Some g
       \<and> redBoxesRef (Ornaments_frames frames (Ornaments_mount random)) = Some r
       \<and> bellsRef (Ornaments_frames frames (Ornaments_mount random)) = Some b
       \<and> length (instanceMatrix g) = 450
       \<and> length (instanceMatrix r) = 450
       \<and> length (instanceMatrix b) = 450
       \<and> length (goldSphereData (Ornaments_frames frames (Ornaments_mount random))) = 180
       \<and> length (redBoxData (Ornaments_frames frames (Ornaments_mount random))) = 180
       \<and> length (bellData (Ornaments_frames frames (Ornaments_mount random))) = 90
       \<and> drop 180 (instanceMatrix g) = replicate 270 None
       \<and> drop 180 (instanceMatrix r) = replicate 270 None
       \<and> drop 90 (instanceMatrix b) = replicate 360 None)"
proof -
  have counts: "ORNAMENT_COUNT = 450" "nat \<lfloor>real ORNAMENT_COUNT * 0.4\<rfloor> = 180"
    "nat \<lfloor>real ORNAMENT_COUNT * 0.2\<rfloor> = 90"
    by (simp_all add: ORNAMENT_COUNT_def)
  let ?c = "Ornaments_mount random"
  have refs: "goldSpheresRef ?c = Some (InstancedMesh_new 450)"
    "redBoxesRef ?c = Some (InstancedMesh_new 450)"
    "bellsRef ?c = Some (InstancedMesh_new 450)"
    by (simp_all add: Ornaments_mount_def Let_def counts)
  have data: "length (goldSphereData ?c) = 180" "length (redBoxData ?c) = 180"
    "length (bellData ?c) = 90"
    by (simp_all add: Ornaments_mount_def Let_def counts generateData_length)
  have fresh: "instanceMatrix (InstancedMesh_new 450) = replicate 450 None"
    by (simp add: InstancedMesh_new_def)
  from Ornaments_frames_tail [OF refs, of frames]
  obtain g r b where final:
    "goldSpheresRef (Ornaments_frames frames ?c) = Some g"
    "redBoxesRef (Ornaments_frames frames ?c) = Some r"
    "bellsRef (Ornaments_frames frames ?c) = Some b"
    "length (instanceMatrix g) = 450" "length (instanceMatrix r) = 450"
    "length (instanceMatrix b) = 450"
    "drop 180 (instanceMatrix g) = replicate 270 None"
    "drop 180 (instanceMatrix r) = replicate 270 None"
    "drop 90 (instanceMatrix b) = replicate 360 None"
    "length (goldSphereData (Ornaments_frames frames ?c)) = 180"
    "length (redBoxData (Ornaments_frames frames ?c)) = 180"
    "length (bellData (Ornaments_frames frames ?c)) = 90"
    unfolding data fresh by (elim exE conjE) (simp add: data)
  then show ?thesis
    by (simp add: counts animateMesh_writes_indices)
qed

subsection \<open>Endpoint generation\<close>

lemma circle_norm: "(r * cos a)\<^sup>2 + (r * sin a)\<^sup>2 = (r::real)\<^sup>2"
proof -
  have "(r * cos a)\<^sup>2 + (r * sin a)\<^sup>2 = r\<^sup>2 * ((cos a)\<^sup>2 + (sin a)\<^sup>2)"
    by (simp only: power_mult_distrib distrib_left)
  then show ?thesis by simp
qed

lemma sphere_norm:
  "(r * sin p * cos t)\<^sup>2 + (r * sin p * sin t)\<^sup>2 + (r * cos p)\<^sup>2 = (r::real)\<^sup>2"
proof -
  have "(r * sin p * cos t)\<^sup>2 + (r * sin p * sin t)\<^sup>2 = (r * sin p)\<^sup>2"
    by (rule circle_norm)
  moreover have "(r * sin p)\<^sup>2 + (r * cos p)\<^sup>2 = r\<^sup>2"
    using circle_norm [of r p] by (simp add: add.commute)
  ultimately show ?thesis by simp
qed

lemma distance_scatter_at: "distance (scatter_at radius u v) scatter_centre = \<bar>radius\<bar>"
  by (simp add: distance_def scatter_at_def scatter_centre_def Let_def sphere_norm)

lemma Foliage_scatterPos_spec: "Foliage_scatterPos u v w = scatter_spec u v w"
  by (simp add: Foliage_scatterPos_def scatter_spec_def scatter_at_def Let_def)

lemma generateData_item_scatter:
  "scatterPosition (generateData_item r1 r2 r3 u v r6 r7 r8) = scatter_at (SCATTER_RADIUS * 0.9) u v"
  by (simp add: generateData_item_def scatter_at_def Let_def)

lemma generateData_nth:
  assumes "i < count"
  shows "generateData count random start ! i =
           generateData_item
             (random (start + 8 * i)) (random (start + 8 * i + 1))
             (random (start + 8 * i + 2)) (random (start + 8 * i + 3))
             (random (start + 8 * i + 4)) (random (start + 8 * i + 5))
             (random (start + 8 * i + 6)) (random (start + 8 * i + 7))"
  using assms by (simp add: generateData_def)

lemma Foliage_scatterPositions_nth:
  assumes "i < PARTICLE_COUNT"
  shows "scatterPositions (Foliage_useMemo random) ! i
       = Foliage_scatterPos (random (7 * i + 3)) (random (7 * i + 4)) (random (7 * i + 5))"
  using assms by (simp add: Foliage_useMemo_def Let_def)

lemma Foliage_treePositions_nth:
  assumes "i < PARTICLE_COUNT"
  shows "treePositions (Foliage_useMemo random) ! i
       = Foliage_treePos i (random (7 * i)) (random (7 * i + 1)) (random (7 * i + 2))"
  using assms by (simp add: Foliage_useMemo_def Let_def)

lemma root3_le_one:
  assumes "0 \<le> w" and "w < 1"
  shows "0 \<le> root 3 w \<and> root 3 w < 1"
proof -
  from assms(2) have "root 3 w < root 3 1"
    by (simp only: real_root_less_iff [of 3]) 
  with assms(1) show ?thesis by simp
qed

lemma Foliage_treePos_radius:
  assumes "h < 1" and "0 \<le> q" and "q < 1"
  shows "\<exists>tx tz. Foliage_treePos i h a q = (tx, h * HEIGHT, tz)
       \<and> axis_radius (tx, h * HEIGHT, tz) = (q * 0.3 + 0.7) * (RADIUS_BASE * (1 - h))
       \<and> 0.7 * RADIUS_BASE * (1 - h) \<le> axis_radius (tx, h * HEIGHT, tz)
       \<and> axis_radius (tx, h * HEIGHT, tz) < RADIUS_BASE * (1 - h)"
proof -
  let ?rAtH = "RADIUS_BASE * (1 - h)"
  let ?r = "(q * 0.3 + 0.7) * ?rAtH"
  from assms(1) have pos: "0 < ?rAtH"
    by (simp add: RADIUS_BASE_def)
  from assms(2) have "0.7 * ?rAtH \<le> (q * 0.3 + 0.7) * ?rAtH"
    using pos by (intro mult_right_mono) simp_all
  then have lower: "0.7 * RADIUS_BASE * (1 - h) \<le> ?r" by (simp add: mult.assoc)
  from assms(3) have "(q * 0.3 + 0.7) * ?rAtH < 1 * ?rAtH"
    using pos by (intro mult_strict_right_mono) simp_all
  then have upper: "?r < ?rAtH" by simp
  from assms(2) have "0 \<le> q * 0.3 + 0.7" by simp
  from mult_nonneg_nonneg [OF this less_imp_le [OF pos]] have "0 \<le> ?r" .
  then have "axis_radius (cos (real i * 0.1 + a * pi * 2) * ?r, h * HEIGHT,
      sin (real i * 0.1 + a * pi * 2) * ?r) = ?r"
    using circle_norm [of ?r "real i * 0.1 + a * pi * 2"]
    by (simp add: axis_radius_def mult.commute)
  with lower upper show ?thesis
    by (simp add: Foliage_treePos_def Let_def)
qed

lemma Ornaments_mount_data:
  "goldSphereData (Ornaments_mount random) = generateData 180 random 0"
  "redBoxData (Ornaments_mount random) = generateData 180 random 1440"
  "bellData (Ornaments_mount random) = generateData 90 random 2880"
  by (simp_all add: Ornaments_mount_def Let_def ORNAMENT_COUNT_def)

lemma generateData_nth_scatter:
  assumes "i < count"
  shows "scatterPosition (generateData count random start ! i)
       = scatter_at (SCATTER_RADIUS * 0.9) (random (start + 8 * i + 3)) (random (start + 8 * i + 4))"
  using assms by (simp add: generateData_nth generateData_item_scatter)

lemma distance_scatter_spec:
  assumes "0 \<le> w"
  shows "distance (scatter_spec u v w) scatter_centre = root 3 w * SCATTER_RADIUS"
  using assms by (simp add: scatter_spec_def distance_scatter_at SCATTER_RADIUS_def)

text \<open>
  C4, as amended. The particle field generates its scatter endpoint by the rule of
  the specification: spherical coordinates from two draws, the radius the cube root
  of a third draw times \<open>S\<close>, and the vertical offset \<open>H / 2\<close>. The three ornament
  pools share one rule among themselves (\<^verbatim>\<open>generateData\<close>), with the same
  spherical coordinates and the same vertical offset, but with the fixed radius
  \<open>0.9 \<cdot> S\<close> in place of the cube-root sample: every ornament scatter endpoint lies
  at distance exactly \<open>0.9 \<cdot> S\<close> from the scatter centre, on a sphere and not
  throughout the ball.
\<close>

theorem scatter_rules:
  assumes "i < PARTICLE_COUNT" and "j < 180" and "k < 90"
  shows "scatterPositions (Foliage_useMemo random) ! i
           = scatter_spec (random (7 * i + 3)) (random (7 * i + 4)) (random (7 * i + 5))
       \<and> scatterPosition (goldSphereData (Ornaments_mount random) ! j)
           = scatter_at (SCATTER_RADIUS * 0.9) (random (8 * j + 3)) (random (8 * j + 4))
       \<and> scatterPosition (redBoxData (Ornaments_mount random) ! j)
           = scatter_at (SCATTER_RADIUS * 0.9) (random (1440 + 8 * j + 3))
               (random (1440 + 8 * j + 4))
       \<and> scatterPosition (bellData (Ornaments_mount random) ! k)
           = scatter_at (SCATTER_RADIUS * 0.9) (random (2880 + 8 * k + 3))
               (random (2880 + 8 * k + 4))
       \<and> distance (scatterPosition (goldSphereData (Ornaments_mount random) ! j)) scatter_centre
           = 0.9 * SCATTER_RADIUS
       \<and> distance (scatterPosition (redBoxData (Ornaments_mount random) ! j)) scatter_centre
           = 0.9 * SCATTER_RADIUS
       \<and> distance (scatterPosition (bellData (Ornaments_mount random) ! k)) scatter_centre
           = 0.9 * SCATTER_RADIUS
       \<and> (0 \<le> random (7 * i + 5) \<longrightarrow>
            distance (scatterPositions (Foliage_useMemo random) ! i) scatter_centre
              = root 3 (random (7 * i + 5)) * SCATTER_RADIUS)"
proof -
  have field: "scatterPositions (Foliage_useMemo random) ! i
      = scatter_spec (random (7 * i + 3)) (random (7 * i + 4)) (random (7 * i + 5))"
    using assms(1) by (simp add: Foliage_scatterPositions_nth Foliage_scatterPos_spec)
  have pools: "scatterPosition (goldSphereData (Ornaments_mount random) ! j)
        = scatter_at (SCATTER_RADIUS * 0.9) (random (8 * j + 3)) (random (8 * j + 4))"
    "scatterPosition (redBoxData (Ornaments_mount random) ! j)
        = scatter_at (SCATTER_RADIUS * 0.9) (random (1440 + 8 * j + 3)) (random (1440 + 8 * j + 4))"
    "scatterPosition (bellData (Ornaments_mount random) ! k)
        = scatter_at (SCATTER_RADIUS * 0.9) (random (2880 + 8 * k + 3)) (random (2880 + 8 * k + 4))"
    using assms(2,3) by (simp_all add: Ornaments_mount_data generateData_nth_scatter)
  have shell: "distance (scatter_at (SCATTER_RADIUS * 0.9) u v) scatter_centre = 0.9 * SCATTER_RADIUS"
    for u v
    by (simp add: distance_scatter_at SCATTER_RADIUS_def)
  have on_shell:
    "distance (scatterPosition (goldSphereData (Ornaments_mount random) ! j)) scatter_centre
       = 0.9 * SCATTER_RADIUS"
    "distance (scatterPosition (redBoxData (Ornaments_mount random) ! j)) scatter_centre
       = 0.9 * SCATTER_RADIUS"
    "distance (scatterPosition (bellData (Ornaments_mount random) ! k)) scatter_centre
       = 0.9 * SCATTER_RADIUS"
    by (simp_all only: pools shell)
  have in_ball: "distance (scatterPositions (Foliage_useMemo random) ! i) scatter_centre
      = root 3 (random (7 * i + 5)) * SCATTER_RADIUS"
    if "0 \<le> random (7 * i + 5)"
    using that by (simp only: field distance_scatter_spec)
  from field pools on_shell in_ball show ?thesis by blast
qed

theorem scatter_rules_witness:
  "(0::nat) < PARTICLE_COUNT \<and> (0::nat) < 180 \<and> (0::nat) < 90
   \<and> (0::real) \<le> 1 / 8
   \<and> scatterPositions (Foliage_useMemo (\<lambda>n. 1 / 8)) ! 0 = scatter_spec (1 / 8) (1 / 8) (1 / 8)
   \<and> distance (scatterPositions (Foliage_useMemo (\<lambda>n. 1 / 8)) ! 0) scatter_centre
       = root 3 (1 / 8) * SCATTER_RADIUS
   \<and> scatterPosition (goldSphereData (Ornaments_mount (\<lambda>n. 1 / 8)) ! 0)
       = scatter_at (SCATTER_RADIUS * 0.9) (1 / 8) (1 / 8)
   \<and> distance (scatterPosition (goldSphereData (Ornaments_mount (\<lambda>n. 1 / 8)) ! 0)) scatter_centre
       = 0.9 * SCATTER_RADIUS
   \<and> distance (scatterPosition (redBoxData (Ornaments_mount (\<lambda>n. 1 / 8)) ! 0)) scatter_centre
       = 0.9 * SCATTER_RADIUS
   \<and> distance (scatterPosition (bellData (Ornaments_mount (\<lambda>n. 1 / 8)) ! 0)) scatter_centre
       = 0.9 * SCATTER_RADIUS"
proof -
  have indices: "(0::nat) < PARTICLE_COUNT" "(0::nat) < 180" "(0::nat) < 90"
    by (simp_all add: PARTICLE_COUNT_def)
  have draw: "(0::real) \<le> 1 / 8" by simp
  from scatter_rules [OF indices, of "\<lambda>n. 1 / 8"] indices draw show ?thesis
    by blast
qed

text \<open>
  With the draws \<open>u = 0\<close> and \<open>v = 1 / 2\<close> an ornament is scattered to
  \<open>(13.5, 4.5, 0)\<close>, at distance \<open>13.5\<close> from the centre, whatever is drawn next;
  the rule of the specification, and the particle field, with a third draw \<open>0\<close>
  give the centre \<open>(0, 4.5, 0)\<close> itself.
\<close>

theorem scatter_rules_counterexample:
  "scatterPosition (generateData_item 0 0 0 0 (1 / 2) 0 0 0) = (27 / 2, 9 / 2, 0)
   \<and> scatter_spec 0 (1 / 2) 0 = (0, 9 / 2, 0)
   \<and> Foliage_scatterPos 0 (1 / 2) 0 = (0, 9 / 2, 0)
   \<and> scatterPosition (generateData_item 0 0 0 0 (1 / 2) 0 0 0) \<noteq> scatter_spec 0 (1 / 2) 0
   \<and> distance (scatterPosition (generateData_item 0 0 0 0 (1 / 2) 0 0 0)) scatter_centre = 27 / 2
   \<and> distance (scatter_spec 0 (1 / 2) 0) scatter_centre = 0"
  by (simp add: generateData_item_def scatter_spec_def scatter_at_def Foliage_scatterPos_def
      distance_def scatter_centre_def Let_def SCATTER_RADIUS_def HEIGHT_def)

text \<open>
  C5, as amended. With every draw in \<open>[0, 1)\<close>: a formed-layout particle sample of
  height fraction \<open>h\<close> lies at a radius \<open>r\<close> from the axis with
  \<open>0.7 \<cdot> R \<cdot> (1 - h) \<le> r \<le> R \<cdot> (1 - h)\<close> (the lower bound is attained, the upper one
  is not); and every scattered sample, of a particle or of an ornament of any of the
  three pools, lies at distance at most \<open>S\<close> from the scatter centre.
\<close>

theorem endpoint_bounds:
  assumes "\<forall>n. 0 \<le> random n \<and> random n < 1"
    and "i < PARTICLE_COUNT" and "j < 180" and "k < 90"
  shows "(\<exists>tx tz.
            treePositions (Foliage_useMemo random) ! i = (tx, random (7 * i) * HEIGHT, tz)
          \<and> 0.7 * RADIUS_BASE * (1 - random (7 * i)) \<le> axis_radius (tx, random (7 * i) * HEIGHT, tz)
          \<and> axis_radius (tx, random (7 * i) * HEIGHT, tz) \<le> RADIUS_BASE * (1 - random (7 * i))
          \<and> axis_radius (tx, random (7 * i) * HEIGHT, tz) < RADIUS_BASE * (1 - random (7 * i)))
       \<and> distance (scatterPositions (Foliage_useMemo random) ! i) scatter_centre \<le> SCATTER_RADIUS
       \<and> distance (scatterPosition (goldSphereData (Ornaments_mount random) ! j)) scatter_centre
           \<le> SCATTER_RADIUS
       \<and> distance (scatterPosition (redBoxData (Ornaments_mount random) ! j)) scatter_centre
           \<le> SCATTER_RADIUS
       \<and> distance (scatterPosition (bellData (Ornaments_mount random) ! k)) scatter_centre
           \<le> SCATTER_RADIUS"
proof -
  from assms(1) have draws: "0 \<le> random n" "random n < 1" for n
    by simp_all
  from Foliage_treePos_radius [OF draws(2) [of "7 * i"] draws(1) [of "7 * i + 2"]
      draws(2) [of "7 * i + 2"], where i = i and a = "random (7 * i + 1)"]
  have tree: "\<exists>tx tz.
      treePositions (Foliage_useMemo random) ! i = (tx, random (7 * i) * HEIGHT, tz)
    \<and> 0.7 * RADIUS_BASE * (1 - random (7 * i)) \<le> axis_radius (tx, random (7 * i) * HEIGHT, tz)
    \<and> axis_radius (tx, random (7 * i) * HEIGHT, tz) \<le> RADIUS_BASE * (1 - random (7 * i))
    \<and> axis_radius (tx, random (7 * i) * HEIGHT, tz) < RADIUS_BASE * (1 - random (7 * i))"
    using assms(2) by (fastforce simp: Foliage_treePositions_nth)
  from root3_le_one [OF draws(1) draws(2), of "7 * i + 5"]
  have "root 3 (random (7 * i + 5)) * SCATTER_RADIUS \<le> 1 * SCATTER_RADIUS"
    by (intro mult_right_mono) (simp_all add: SCATTER_RADIUS_def)
  then have field: "distance (scatterPositions (Foliage_useMemo random) ! i) scatter_centre
      \<le> SCATTER_RADIUS"
    using assms(2) draws(1) [of "7 * i + 5"]
    by (simp add: Foliage_scatterPositions_nth Foliage_scatterPos_spec distance_scatter_spec)
  have shell: "distance (scatter_at (SCATTER_RADIUS * 0.9) u v) scatter_centre \<le> SCATTER_RADIUS"
    for u v
    by (simp add: distance_scatter_at SCATTER_RADIUS_def)
  from assms(3,4) have pools:
    "distance (scatterPosition (goldSphereData (Ornaments_mount random) ! j)) scatter_centre
       \<le> SCATTER_RADIUS"
    "distance (scatterPosition (redBoxData (Ornaments_mount random) ! j)) scatter_centre
       \<le> SCATTER_RADIUS"
    "distance (scatterPosition (bellData (Ornaments_mount random) ! k)) scatter_centre
       \<le> SCATTER_RADIUS"
    by (simp_all only: Ornaments_mount_data generateData_nth_scatter shell)
  from tree field pools show ?thesis by blast
qed

theorem endpoint_bounds_witness:
  "(0::real) \<le> 1 / 2 \<and> (1 / 2 :: real) < 1
   \<and> (0::nat) < PARTICLE_COUNT \<and> (0::nat) < 180 \<and> (0::nat) < 90
   \<and> (\<exists>tx tz.
         treePositions (Foliage_useMemo (\<lambda>n. 1 / 2)) ! 0 = (tx, 1 / 2 * HEIGHT, tz)
       \<and> 0.7 * RADIUS_BASE * (1 - 1 / 2) \<le> axis_radius (tx, 1 / 2 * HEIGHT, tz)
       \<and> axis_radius (tx, 1 / 2 * HEIGHT, tz) \<le> RADIUS_BASE * (1 - 1 / 2)
       \<and> axis_radius (tx, 1 / 2 * HEIGHT, tz) < RADIUS_BASE * (1 - 1 / 2))
   \<and> distance (scatterPositions (Foliage_useMemo (\<lambda>n. 1 / 2)) ! 0) scatter_centre
       \<le> SCATTER_RADIUS
   \<and> distance (scatterPosition (goldSphereData (Ornaments_mount (\<lambda>n. 1 / 2)) ! 0)) scatter_centre
       \<le> SCATTER_RADIUS"
  using endpoint_bounds [of "\<lambda>n. 1 / 2" 0 0 0]
  by (simp add: PARTICLE_COUNT_def)

text \<open>
  The lower bound is not strict: when the radius factor is drawn as \<open>0\<close> the sampled
  radius is exactly \<open>0.7 \<cdot> R \<cdot> (1 - h)\<close>; with every draw \<open>0\<close> the first particle is
  formed at \<open>(2.45, 0, 0)\<close>, and \<open>0.7 \<cdot> 3.5 \<cdot> (1 - 0) = 2.45\<close>.
\<close>

theorem endpoint_bounds_counterexample:
  "(0::real) \<le> 0 \<and> (0::real) < 1
   \<and> treePositions (Foliage_useMemo (\<lambda>n. 0)) ! 0 = (49 / 20, 0, 0)
   \<and> axis_radius (treePositions (Foliage_useMemo (\<lambda>n. 0)) ! 0) = 49 / 20
   \<and> 0.7 * RADIUS_BASE * (1 - 0) = 49 / 20
   \<and> \<not> 0.7 * RADIUS_BASE * (1 - 0) < axis_radius (treePositions (Foliage_useMemo (\<lambda>n. 0)) ! 0)"
  by (simp add: Foliage_useMemo_def Foliage_treePos_def Let_def PARTICLE_COUNT_def
      axis_radius_def RADIUS_BASE_def HEIGHT_def)

end
